theory Spec2Isabelle
  imports Main "HOL-Library.Product_Lexorder"
begin

text \<open>
  The chat companion's server: the classifier, the prompt composer, the generation
  adapter and the route handlers of the TypeScript server with sessions, and the store of
  \<open>server/database.ts\<close>. Each definition follows the source function of the same name.
\<close>

section \<open>Text\<close>

text \<open>
  A JavaScript string is a sequence of UTF-16 code units. The model works on the code
  units below 256 (Latin-1), which is what \<^typ>\<open>char\<close> holds: \<^typ>\<open>string\<close> is the
  text of a message, \<open>length\<close> counts code units as \<open>String.prototype.length\<close> does.
\<close>

definition toLowerCase_char :: "char \<Rightarrow> char" where
  \<comment> \<open>\<open>String.prototype.toLowerCase\<close> on one Latin-1 code unit: A-Z and the accented
      capitals 0xC0-0xDE (0xD7, the multiplication sign, is no letter).\<close>
  "toLowerCase_char c =
     (let n = (of_char c :: nat)
      in if (65 \<le> n \<and> n \<le> 90) \<or> (192 \<le> n \<and> n \<le> 222 \<and> n \<noteq> 215)
         then char_of (n + 32) else c)"

definition toLowerCase :: "string \<Rightarrow> string" where
  "toLowerCase s = map toLowerCase_char s"

definition canonicalize :: "char \<Rightarrow> char" where
  \<comment> \<open>The \<open>Canonicalize\<close> operation of a regular expression with the \<open>i\<close> flag (and no
      \<open>u\<close> flag): a code unit is replaced by its upper-case form when that is one code
      unit. The upper-case forms of 0xB5 and 0xFF lie outside Latin-1 and equal no other
      Latin-1 code unit's, so these two stay.\<close>
  "canonicalize c =
     (let n = (of_char c :: nat)
      in if (97 \<le> n \<and> n \<le> 122) \<or> (224 \<le> n \<and> n \<le> 254 \<and> n \<noteq> 247)
         then char_of (n - 32) else c)"

fun match_at :: "string \<Rightarrow> string \<Rightarrow> bool" where
  \<comment> \<open>a literal alternative of a pattern matches at the head of the input, ignoring case\<close>
  "match_at [] s = True"
| "match_at (p # ps) [] = False"
| "match_at (p # ps) (c # cs) = (canonicalize p = canonicalize c \<and> match_at ps cs)"

fun regex_test :: "string list \<Rightarrow> string \<Rightarrow> bool" where
  \<comment> \<open>\<open>/(k1|k2|...)/i.test(s)\<close>: the alternatives are tried at each position of the
      input, from the left\<close>
  "regex_test alts [] = list_ex (\<lambda>a. match_at a []) alts"
| "regex_test alts (c # cs) = (list_ex (\<lambda>a. match_at a (c # cs)) alts \<or> regex_test alts cs)"

definition is_whitespace :: "char \<Rightarrow> bool" where
  \<comment> \<open>WhiteSpace and LineTerminator code units below 256: TAB, LF, VT, FF, CR, SP, NBSP\<close>
  "is_whitespace c = ((of_char c :: nat) \<in> {9, 10, 11, 12, 13, 32, 160})"

definition trim :: "string \<Rightarrow> string" where
  "trim s = rev (dropWhile is_whitespace (rev (dropWhile is_whitespace s)))"

definition substring :: "string \<Rightarrow> nat \<Rightarrow> nat \<Rightarrow> string" where
  \<comment> \<open>\<open>s.substring(from, to)\<close> for \<open>from \<le> to\<close>\<close>
  "substring s from to = take (to - from) (drop from s)"

section \<open>Classifier\<close>

datatype Mood = Happy | Sad | Stressed | Excited | Neutral

datatype Mode = Friend | Research | Code

fun mood_str :: "Mood \<Rightarrow> string" where
  "mood_str Happy = ''happy''"
| "mood_str Sad = ''sad''"
| "mood_str Stressed = ''stressed''"
| "mood_str Excited = ''excited''"
| "mood_str Neutral = ''neutral''"

fun mode_str :: "Mode \<Rightarrow> string" where
  "mode_str Friend = ''friend''"
| "mode_str Research = ''research''"
| "mode_str Code = ''code''"

definition happy_keywords :: "string list" where
  "happy_keywords = [''happy'', ''great'', ''awesome'', ''excited'', ''amazing'', ''wonderful'']"

definition sad_keywords :: "string list" where
  "sad_keywords = [''sad'', ''depressed'', ''down'', ''lonely'', ''upset'']"

definition stressed_keywords :: "string list" where
  "stressed_keywords =
     [''stress'', ''anxious'', ''worried'', ''overwhelmed'', ''tired'', ''drained'']"

definition excited_keywords :: "string list" where
  "excited_keywords = [''excited'', ''can't wait'', ''looking forward'', ''pumped'']"

definition code_keywords :: "string list" where
  "code_keywords =
     [''code'', ''debug'', ''error'', ''function'', ''component'', ''api'', ''bug'',
      ''programming'', ''react'', ''angular'', ''typescript'']"

definition research_keywords :: "string list" where
  "research_keywords =
     [''research'', ''learn'', ''explain'', ''how does'', ''what is'', ''tell me about'',
      ''study'', ''researching'']"

definition detectMood :: "string \<Rightarrow> Mood" where
  "detectMood text =
     (let lower = toLowerCase text
      in if regex_test happy_keywords lower then Happy
         else if regex_test sad_keywords lower then Sad
         else if regex_test stressed_keywords lower then Stressed
         else if regex_test excited_keywords lower then Excited
         else Neutral)"

definition detectMode :: "string \<Rightarrow> Mode option \<Rightarrow> Mode" where
  \<comment> \<open>\<open>currentMode || 'friend'\<close>: an absent mode is \<open>None\<close>\<close>
  "detectMode text currentMode =
     (let lower = toLowerCase text
      in if regex_test code_keywords lower then Code
         else if regex_test research_keywords lower then Research
         else (case currentMode of Some m \<Rightarrow> m | None \<Rightarrow> Friend))"

section \<open>Persistence store\<close>

text \<open>
  The two tables of \<open>database.ts\<close>. A row of \<open>sessions\<close> and a row of
  \<open>conversations\<close> are records; a table is the list of its rows in insertion order.
  \<open>CURRENT_TIMESTAMP\<close> is a reading of the wall clock in seconds, passed to each
  statement that uses it. The columns \<open>mood\<close> and \<open>mode\<close> are nullable \<open>TEXT\<close>.
\<close>

datatype Role = User | Assistant

record Session =
  s_id :: string
  s_title :: string
  s_created_at :: nat
  s_updated_at :: nat

record Message =
  m_id :: nat
  m_session_id :: string
  m_role :: Role
  m_content :: string
  m_mood :: "string option"
  m_mode :: "string option"
  m_timestamp :: nat

text \<open>
  \<open>last_rowid\<close> is the counter that \<open>AUTOINCREMENT\<close> keeps for \<open>conversations\<close>
  (row ids are never reused). \<open>foreign_keys\<close> is the connection's
  \<open>PRAGMA foreign_keys\<close>: SQLite enforces a \<open>FOREIGN KEY\<close> clause, and runs its
  \<open>ON DELETE CASCADE\<close>, only on a connection that has switched the pragma on.
\<close>

record database =
  sessions :: "Session list"
  conversations :: "Message list"
  last_rowid :: nat
  foreign_keys :: bool

definition open_database :: database where
  \<comment> \<open>\<open>new sqlite3.Database(dbPath)\<close> and the \<open>CREATE TABLE IF NOT EXISTS\<close> statements on a
      new file; no statement of the source sets the pragma, it keeps its default\<close>
  "open_database = \<lparr>sessions = [], conversations = [], last_rowid = 0, foreign_keys = False\<rparr>"

datatype db_error = SQLITE_CONSTRAINT

definition session_exists :: "string \<Rightarrow> database \<Rightarrow> bool" where
  "session_exists sessionId db = (sessionId \<in> set (map s_id (sessions db)))"

definition createSession :: "string \<Rightarrow> string \<Rightarrow> nat \<Rightarrow> database \<Rightarrow> database" where
  \<comment> \<open>\<open>INSERT OR IGNORE INTO sessions (id, title) VALUES (?, ?)\<close>; \<open>id\<close> is the primary key\<close>
  "createSession sessionId title now db =
     (if session_exists sessionId db then db
      else db\<lparr>sessions := sessions db @
             [\<lparr>s_id = sessionId, s_title = title, s_created_at = now, s_updated_at = now\<rparr>]\<rparr>)"

definition deleteSession :: "string \<Rightarrow> database \<Rightarrow> database" where
  \<comment> \<open>\<open>DELETE FROM sessions WHERE id = ?\<close>; the rows of \<open>conversations\<close> that reference a
      deleted session go with it when foreign keys are enforced\<close>
  "deleteSession sessionId db =
     db\<lparr>sessions := filter (\<lambda>s. s_id s \<noteq> sessionId) (sessions db),
        conversations :=
          (if foreign_keys db \<and> session_exists sessionId db
           then filter (\<lambda>m. m_session_id m \<noteq> sessionId) (conversations db)
           else conversations db)\<rparr>"

definition touchSession :: "string \<Rightarrow> nat \<Rightarrow> database \<Rightarrow> database" where
  \<comment> \<open>\<open>UPDATE sessions SET updated_at = CURRENT_TIMESTAMP WHERE id = ?\<close>\<close>
  "touchSession sessionId now db =
     db\<lparr>sessions := map (\<lambda>s. if s_id s = sessionId then s\<lparr>s_updated_at := now\<rparr> else s)
                        (sessions db)\<rparr>"

definition saveMessage ::
  "string \<Rightarrow> Role \<Rightarrow> string \<Rightarrow> string option \<Rightarrow> string option \<Rightarrow> nat \<Rightarrow> nat \<Rightarrow> database
     \<Rightarrow> db_error + (nat \<times> database)" where
  \<comment> \<open>\<open>INSERT INTO conversations (session_id, role, content, mood, mode)\<close> at time \<open>now\<close>,
      then \<open>touchSession\<close> at time \<open>now'\<close>; resolves with \<open>this.lastID\<close>\<close>
  "saveMessage sessionId role content mood mode now now' db =
     (if foreign_keys db \<and> \<not> session_exists sessionId db then Inl SQLITE_CONSTRAINT
      else
        let new_id = last_rowid db + 1;
            row = \<lparr>m_id = new_id, m_session_id = sessionId, m_role = role,
                   m_content = content, m_mood = mood, m_mode = mode, m_timestamp = now\<rparr>;
            db' = db\<lparr>conversations := conversations db @ [row], last_rowid := new_id\<rparr>
        in Inr (new_id, touchSession sessionId now' db'))"

definition scan_key :: "Message \<Rightarrow> nat \<times> nat" where
  \<comment> \<open>the position of a row in \<open>idx_session_timestamp ON conversations(session_id,
      timestamp)\<close> within its session: an index entry ends with the row id\<close>
  "scan_key m = (m_timestamp m, m_id m)"

definition order_by_timestamp_desc :: "Message list \<Rightarrow> Message list" where
  \<comment> \<open>\<open>ORDER BY timestamp DESC\<close>, answered by walking the index backwards\<close>
  "order_by_timestamp_desc rows = rev (sort_key scan_key rows)"

definition sql_limit :: "int \<Rightarrow> 'a list \<Rightarrow> 'a list" where
  \<comment> \<open>\<open>LIMIT ?\<close>: a negative limit is no limit\<close>
  "sql_limit limit rows = (if limit < 0 then rows else take (nat limit) rows)"

definition getConversationHistory :: "string \<Rightarrow> int \<Rightarrow> database \<Rightarrow> Message list" where
  \<comment> \<open>\<open>SELECT * FROM conversations WHERE session_id = ? ORDER BY timestamp DESC LIMIT ?\<close>,
      then \<open>rows.reverse()\<close>\<close>
  "getConversationHistory sessionId limit db =
     rev (sql_limit limit
            (order_by_timestamp_desc
               (filter (\<lambda>m. m_session_id m = sessionId) (conversations db))))"

section \<open>Prompt composer\<close>

definition friend_prompt :: "Mood \<Rightarrow> string" where
  "friend_prompt mood =
     ''You are D.R.O.S.S (Digital Recovery Optimizer for Soulful Systems), a caring AI companion focused on emotional support and daily wellness. \<newline>'' @
     ''\<newline>'' @
     ''Your role:\<newline>'' @
     ''- Be empathetic and conversational, like a close friend\<newline>'' @
     ''- Keep responses concise (2-4 sentences) unless user asks for detail  \<newline>'' @
     ''- Detect and respond to the user's mood sensitively\<newline>'' @
     ''- Don't overwhelm with information - prioritize emotional connection\<newline>'' @
     ''- Ask follow-up questions to understand their state better\<newline>'' @
     ''\<newline>'' @
     ''Current detected mood: '' @ mood_str mood @ ''. Respond accordingly.''"

definition research_prompt :: string where
  "research_prompt =
     ''You are D.R.O.S.S in Research Mode - a deep-thinking AI that helps explore topics thoroughly.\<newline>'' @
     ''\<newline>'' @
     ''Your role:\<newline>'' @
     ''- Provide detailed, well-structured explanations\<newline>'' @
     ''- Break down complex topics into understandable parts\<newline>'' @
     ''- Cite reasoning and suggest further areas to explore\<newline>'' @
     ''- Be intellectually curious and thorough\<newline>'' @
     ''- Ask clarifying questions when needed''"

definition code_prompt :: string where
  "code_prompt =
     ''You are D.R.O.S.S in Code Mode - a programming assistant helping debug and explain code.\<newline>'' @
     ''\<newline>'' @
     ''Your role:\<newline>'' @
     ''- Help debug errors and explain technical concepts\<newline>'' @
     ''- Provide code examples when relevant\<newline>'' @
     ''- Ask about the specific technology stack (React, Angular, Node, etc.)\<newline>'' @
     ''- Suggest best practices and optimizations\<newline>'' @
     ''- Keep explanations clear and actionable''"

datatype js_value = JSString string | JSUndefined | JSInherited string

definition object_prototype_keys :: "string list" where
  \<comment> \<open>the names of the properties of \<open>Object.prototype\<close>, which an object literal
      inherits; the value of each is a function, that of \<open>__proto__\<close> the prototype object\<close>
  "object_prototype_keys =
     [''constructor'', ''__defineGetter__'', ''__defineSetter__'', ''hasOwnProperty'',
      ''__lookupGetter__'', ''__lookupSetter__'', ''isPrototypeOf'', ''propertyIsEnumerable'',
      ''toString'', ''valueOf'', ''__proto__'', ''toLocaleString'']"

definition get_property :: "(string \<times> string) list \<Rightarrow> string \<Rightarrow> js_value" where
  \<comment> \<open>\<open>obj[key]\<close> for an object literal of string properties: the own property of that
      name, else the property inherited from \<open>Object.prototype\<close> (\<open>JSInherited\<close>, named by
      its key), else \<open>undefined\<close>\<close>
  "get_property obj key =
     (case map_of obj key of
        Some v \<Rightarrow> JSString v
      | None \<Rightarrow> if key \<in> set object_prototype_keys then JSInherited key else JSUndefined)"


definition prompts :: "Mood \<Rightarrow> (string \<times> string) list" where
  \<comment> \<open>the object literal \<open>prompts\<close>: its own properties, in the order written\<close>
  "prompts mood =
     [(''friend'', friend_prompt mood), (''research'', research_prompt), (''code'', code_prompt)]"

definition getSystemPrompt :: "string \<Rightarrow> Mood \<Rightarrow> js_value" where
  \<comment> \<open>\<open>return prompts[mode]\<close>, in both TypeScript servers. The type \<open>Mode\<close> of the
      parameter is erased when the program runs: \<open>mode\<close> is the property key it is then.\<close>
  "getSystemPrompt mode mood = get_property (prompts mood) mode"





definition js_string :: "js_value \<Rightarrow> string" where
  \<comment> \<open>a value interpolated into a template literal: a string as it is, \<open>undefined\<close> by
      its name, a built-in function by the source text the engine gives it (\<open>constructor\<close>
      is the function \<open>Object\<close>), the prototype object as \<open>[object Object]\<close>\<close>
  "js_string v =
     (case v of
        JSString s \<Rightarrow> s
      | JSUndefined \<Rightarrow> ''undefined''
      | JSInherited k \<Rightarrow>
          if k = ''__proto__'' then ''[object Object]''
          else ''function '' @ (if k = ''constructor'' then ''Object'' else k) @
               ''() { [native code] }'')"

fun join :: "string \<Rightarrow> string list \<Rightarrow> string" where
  "join sep [] = []"
| "join sep [x] = x"
| "join sep (x # y # ys) = x @ sep @ join sep (y # ys)"

definition slice_last :: "nat \<Rightarrow> 'a list \<Rightarrow> 'a list" where
  \<comment> \<open>\<open>xs.slice(-k)\<close>\<close>
  "slice_last k xs = drop (length xs - k) xs"

definition build_prompt :: "string \<Rightarrow> Mood \<Rightarrow> Mode \<Rightarrow> Message list \<Rightarrow> string" where
  "build_prompt message mood mode history =
     (let systemPrompt = getSystemPrompt (mode_str mode) mood;
          conversationHistory =
            join ''\<newline>''
              (map (\<lambda>msg. (if m_role msg = User then ''User'' else ''D.R.O.S.S'') @ '': '' @
                           m_content msg)
                   (slice_last 6 history))
      in js_string systemPrompt @ ''\<newline>\<newline>Previous conversation:\<newline>'' @
         conversationHistory @ ''\<newline>\<newline>User ('' @ mood_str mood @ ''): '' @ message @
         ''\<newline>\<newline>D.R.O.S.S:'')"

section \<open>Generation client adapter\<close>

text \<open>
  The provider is outside the program. One call either yields a text or throws; what is
  read of a thrown error is \<open>error?.status\<close>, a number or nothing. The provider of a
  request is a function of the prompt and of how many calls were made before.
\<close>

datatype gen_result = Text string | Failure "nat option"

type_synonym provider = "string \<Rightarrow> nat \<Rightarrow> gen_result"

record adapter_state =
  calls :: nat
  slept_ms :: nat

definition rate_limited_reply :: string where
  \<comment> \<open>ends with U+1F550, written as its UTF-8 bytes\<close>
  "rate_limited_reply =
     ''I'm getting rate limited. Give me a minute and try again! '' @
     [CHR 0xF0, CHR 0x9F, CHR 0x95, CHR 0x90]"

definition confused_reply :: string where
  \<comment> \<open>ends with U+1F914, written as its UTF-8 bytes\<close>
  "confused_reply =
     ''Something about that message confused me. Can you rephrase it? '' @
     [CHR 0xF0, CHR 0x9F, CHR 0xA4, CHR 0x94]"

definition trouble_reply :: string where
  \<comment> \<open>ends with U+1F504, written as its UTF-8 bytes\<close>
  "trouble_reply =
     ''I'm having trouble connecting right now. Can you try again? '' @
     [CHR 0xF0, CHR 0x9F, CHR 0x94, CHR 0x84]"

fun generateAIResponse ::
  "provider \<Rightarrow> string \<Rightarrow> Mood \<Rightarrow> Mode \<Rightarrow> Message list \<Rightarrow> nat \<Rightarrow> adapter_state
     \<Rightarrow> string \<times> adapter_state" where
  \<comment> \<open>\<open>retries\<close> defaults to 2; \<open>calls\<close> counts the calls of \<open>model.generateContent\<close>,
      \<open>slept_ms\<close> adds up the \<open>setTimeout\<close> delays\<close>
  "generateAIResponse p message mood mode history retries st =
     (case p (build_prompt message mood mode history) (calls st) of
        Text t \<Rightarrow> (t, st\<lparr>calls := calls st + 1\<rparr>)
      | Failure status \<Rightarrow>
          if retries > 0 \<and> status \<noteq> Some 400 \<and> status \<noteq> Some 403
          then generateAIResponse p message mood mode history (retries - 1)
                 (st\<lparr>calls := calls st + 1, slept_ms := slept_ms st + 1000\<rparr>)
          else if status = Some 429 then (rate_limited_reply, st\<lparr>calls := calls st + 1\<rparr>)
          else if status = Some 400 \<or> status = Some 403
            then (confused_reply, st\<lparr>calls := calls st + 1\<rparr>)
          else (trouble_reply, st\<lparr>calls := calls st + 1\<rparr>))"

section \<open>Chat service\<close>

text \<open>
  The route handlers of the server, as they run on a request that reaches them (the
  routing, the check of the API key that precedes every route and the configuration are
  not part of the model). A request body is a record of optional fields, a reply is the
  HTTP status with the JSON body. \<open>clock k\<close> is the wall clock as the \<open>k\<close>-th
  statement of the request that reads \<open>CURRENT_TIMESTAMP\<close> finds it.
\<close>

record ChatRequest =
  q_message :: "string option"
  q_sessionId :: "string option"
  q_mode :: "Mode option"

record ChatResponse =
  r_response :: string
  r_mood :: Mood
  r_mode :: Mode

record http_reply =
  http_status :: nat
  http_body :: ChatResponse

definition post_chat ::
  "provider \<Rightarrow> (nat \<Rightarrow> nat) \<Rightarrow> ChatRequest \<Rightarrow> database \<Rightarrow> http_reply \<times> database" where
  \<comment> \<open>\<open>app.post('/api/chat', ...)\<close>\<close>
  "post_chat p clock req db =
     (let sessionId = (case q_sessionId req of Some s \<Rightarrow> s | None \<Rightarrow> ''default'');
          mode = q_mode req;
          current_or_friend = (case mode of Some m \<Rightarrow> m | None \<Rightarrow> Friend);
          invalid =
            (\<lparr>http_status = 400,
              http_body = \<lparr>r_response = ''I didn't catch that. Can you type something?'',
                           r_mood = Neutral, r_mode = current_or_friend\<rparr>\<rparr>, db);
          failed =
            \<lparr>http_status = 500,
             http_body = \<lparr>r_response = ''Something went wrong. Let's try that again.'',
                          r_mood = Neutral, r_mode = current_or_friend\<rparr>\<rparr>
      in case q_message req of
           None \<Rightarrow> invalid
         | Some message \<Rightarrow>
             if message = [] \<or> trim message = [] then invalid
             else
               let trimmedMessage = trim message;
                   db1 = createSession sessionId (substring trimmedMessage 0 50 @ ''...'')
                           (clock 0) db;
                   detectedMood = detectMood trimmedMessage;
                   detectedMode = detectMode trimmedMessage mode
               in case saveMessage sessionId User trimmedMessage
                         (Some (mood_str detectedMood)) (Some (mode_str detectedMode))
                         (clock 1) (clock 2) db1 of
                    Inl e \<Rightarrow> (failed, db1)
                  | Inr (user_id, db2) \<Rightarrow>
                      let history = getConversationHistory sessionId 10 db2;
                          response =
                            fst (generateAIResponse p trimmedMessage detectedMood detectedMode
                                   history 2 \<lparr>calls = 0, slept_ms = 0\<rparr>)
                      in case saveMessage sessionId Assistant response
                                (Some (mood_str detectedMood)) (Some (mode_str detectedMode))
                                (clock 3) (clock 4) db2 of
                           Inl e \<Rightarrow> (failed, db2)
                         | Inr (assistant_id, db3) \<Rightarrow>
                             (\<lparr>http_status = 200,
                               http_body = \<lparr>r_response = response, r_mood = detectedMood,
                                            r_mode = detectedMode\<rparr>\<rparr>, db3))"

definition delete_session :: "string \<Rightarrow> database \<Rightarrow> nat \<times> database" where
  \<comment> \<open>\<open>app.delete('/api/sessions/:sessionId', ...)\<close>: the status, and the store after\<close>
  "delete_session sessionId db = (200, deleteSession sessionId db)"

definition get_history :: "string \<Rightarrow> database \<Rightarrow> nat \<times> Message list" where
  \<comment> \<open>\<open>app.get('/api/history/:sessionId', ...)\<close>: the status and the JSON array\<close>
  "get_history sessionId db = (200, getConversationHistory sessionId 50 db)"

declare generateAIResponse.simps [simp del]

section \<open>Notions used to state the properties\<close>

definition contains_keyword :: "string \<Rightarrow> string \<Rightarrow> bool" where
  \<comment> \<open>the keyword occurs in the text as a substring, letter case ignored\<close>
  "contains_keyword txt kw =
     (\<exists>pre mid suf. txt = pre @ mid @ suf \<and> map canonicalize mid = map canonicalize kw)"

definition session_rows :: "string \<Rightarrow> database \<Rightarrow> Message list" where
  \<comment> \<open>the turns of a session, in insertion order\<close>
  "session_rows sessionId db = filter (\<lambda>m. m_session_id m = sessionId) (conversations db)"

definition rowids_ok :: "database \<Rightarrow> bool" where
  \<comment> \<open>what \<open>INTEGER PRIMARY KEY AUTOINCREMENT\<close> maintains: row ids are distinct and none
      exceeds the counter\<close>
  "rowids_ok db =
     (distinct (map m_id (conversations db)) \<and>
      list_all (\<lambda>m. m_id m \<le> last_rowid db) (conversations db))"

definition request_session :: "ChatRequest \<Rightarrow> string" where
  \<comment> \<open>\<open>sessionId = 'default'\<close> in the destructuring of the request body\<close>
  "request_session req = (case q_sessionId req of Some s \<Rightarrow> s | None \<Rightarrow> ''default'')"

definition apology :: "nat option \<Rightarrow> string" where
  \<comment> \<open>the reply that the \<open>catch\<close> branch of \<open>generateAIResponse\<close> gives for an error status\<close>
  "apology status =
     (if status = Some 429 then rate_limited_reply
      else if status = Some 400 \<or> status = Some 403 then confused_reply
      else trouble_reply)"

definition always_fails :: "nat option \<Rightarrow> provider" where
  \<comment> \<open>a provider whose every call throws an error of the given status\<close>
  "always_fails status = (\<lambda>prompt k. Failure status)"

definition always_answers :: "string \<Rightarrow> provider" where
  "always_answers reply = (\<lambda>prompt k. Text reply)"

definition same_second :: "nat \<Rightarrow> nat" where
  \<comment> \<open>a request served within one second of the wall clock\<close>
  "same_second = (\<lambda>k. 1000)"

definition excited_request :: ChatRequest where
  "excited_request =
     \<lparr>q_message = Some ''I'm so excited about this!'', q_sessionId = Some ''s1'',
      q_mode = None\<rparr>"

definition blank_request :: ChatRequest where
  "blank_request = \<lparr>q_message = Some ''  '', q_sessionId = Some ''s1'', q_mode = Some Code\<rparr>"

definition sample_db :: database where
  \<comment> \<open>two sessions; three turns of \<open>s1\<close>, two of them written in the same second\<close>
  "sample_db =
     \<lparr>sessions =
        [\<lparr>s_id = ''s1'', s_title = ''first title'', s_created_at = 1000, s_updated_at = 1001\<rparr>,
         \<lparr>s_id = ''s2'', s_title = ''other'', s_created_at = 1000, s_updated_at = 1000\<rparr>],
      conversations =
        [\<lparr>m_id = 1, m_session_id = ''s1'', m_role = User, m_content = ''a'',
          m_mood = None, m_mode = None, m_timestamp = 1000\<rparr>,
         \<lparr>m_id = 2, m_session_id = ''s2'', m_role = User, m_content = ''b'',
          m_mood = None, m_mode = None, m_timestamp = 1000\<rparr>,
         \<lparr>m_id = 3, m_session_id = ''s1'', m_role = Assistant, m_content = ''c'',
          m_mood = None, m_mode = None, m_timestamp = 1000\<rparr>,
         \<lparr>m_id = 4, m_session_id = ''s1'', m_role = User, m_content = ''d'',
          m_mood = None, m_mode = None, m_timestamp = 1001\<rparr>],
      last_rowid = 4, foreign_keys = False\<rparr>"

section \<open>Text and classifier: lemmas\<close>

lemma dropWhile_all: "list_all P s \<Longrightarrow> dropWhile P s = []"
  by (simp add: list_all_iff)

lemma trim_blank: "list_all is_whitespace s \<Longrightarrow> trim s = []"
  by (simp add: trim_def dropWhile_all)

lemma trim_empty_iff: "trim s = [] \<longleftrightarrow> list_all is_whitespace s"
proof
  assume "trim s = []"
  then have a: "\<forall>x\<in>set (dropWhile is_whitespace s). is_whitespace x"
    by (simp add: trim_def)
  have "dropWhile is_whitespace s = []"
  proof (rule ccontr)
    assume n: "dropWhile is_whitespace s \<noteq> []"
    then have "\<not> is_whitespace (hd (dropWhile is_whitespace s))" by (rule hd_dropWhile)
    moreover have "hd (dropWhile is_whitespace s) \<in> set (dropWhile is_whitespace s)"
      using n by simp
    ultimately show False using a by blast
  qed
  then show "list_all is_whitespace s" by (simp add: list_all_iff)
qed (rule trim_blank)

lemma canonicalize_toLowerCase_char: "canonicalize (toLowerCase_char c) = canonicalize c"
  by (auto simp: canonicalize_def toLowerCase_char_def Let_def)

lemma match_at_iff:
  "match_at kw s \<longleftrightarrow> (\<exists>mid suf. s = mid @ suf \<and> map canonicalize mid = map canonicalize kw)"
proof (induction kw s rule: match_at.induct)
  case (1 s)
  then show ?case by simp
next
  case (2 p ps)
  then show ?case by simp
next
  case (3 p ps c cs)
  show ?case
  proof
    assume "match_at (p # ps) (c # cs)"
    then have pc: "canonicalize p = canonicalize c" and "match_at ps cs" by simp_all
    with 3 obtain mid suf where "cs = mid @ suf" "map canonicalize mid = map canonicalize ps"
      by blast
    with pc have "c # cs = (c # mid) @ suf \<and> map canonicalize (c # mid) = map canonicalize (p # ps)"
      by simp
    then show "\<exists>mid suf. c # cs = mid @ suf \<and> map canonicalize mid = map canonicalize (p # ps)"
      by blast
  next
    assume "\<exists>mid suf. c # cs = mid @ suf \<and> map canonicalize mid = map canonicalize (p # ps)"
    then obtain mid suf where
      ms: "c # cs = mid @ suf" "map canonicalize mid = map canonicalize (p # ps)" by blast
    then obtain m ms' where mid: "mid = m # ms'" by (cases mid) auto
    with ms have "m = c" "cs = ms' @ suf" "canonicalize c = canonicalize p"
      "map canonicalize ms' = map canonicalize ps" by auto
    with 3 show "match_at (p # ps) (c # cs)" by auto
  qed
qed

lemma regex_test_iff:
  "regex_test alts s \<longleftrightarrow> (\<exists>kw \<in> set alts. contains_keyword s kw)"
proof (induction s)
  case Nil
  show ?case by (auto simp: list_ex_iff match_at_iff contains_keyword_def)
next
  case (Cons c cs)
  show ?case
  proof
    assume "regex_test alts (c # cs)"
    then consider "list_ex (\<lambda>a. match_at a (c # cs)) alts" | "regex_test alts cs" by auto
    then show "\<exists>kw \<in> set alts. contains_keyword (c # cs) kw"
    proof cases
      case 1
      then obtain kw mid suf where "kw \<in> set alts" "c # cs = mid @ suf"
        "map canonicalize mid = map canonicalize kw"
        by (auto simp: list_ex_iff match_at_iff)
      then have "kw \<in> set alts \<and> c # cs = [] @ mid @ suf \<and> map canonicalize mid = map canonicalize kw"
        by simp
      then show ?thesis unfolding contains_keyword_def by blast
    next
      case 2
      with Cons obtain kw pre mid suf where "kw \<in> set alts" "cs = pre @ mid @ suf"
        "map canonicalize mid = map canonicalize kw"
        by (auto simp: contains_keyword_def)
      then have "kw \<in> set alts \<and> c # cs = (c # pre) @ mid @ suf \<and> map canonicalize mid = map canonicalize kw"
        by simp
      then show ?thesis unfolding contains_keyword_def by blast
    qed
  next
    assume "\<exists>kw \<in> set alts. contains_keyword (c # cs) kw"
    then obtain kw pre mid suf where k: "kw \<in> set alts" and e: "c # cs = pre @ mid @ suf"
      and m: "map canonicalize mid = map canonicalize kw"
      by (auto simp: contains_keyword_def)
    show "regex_test alts (c # cs)"
    proof (cases pre)
      case Nil
      with e m have "match_at kw (c # cs)" unfolding match_at_iff by auto
      with k show ?thesis by (auto simp: list_ex_iff)
    next
      case (Cons x pre')
      with e have "cs = pre' @ mid @ suf" by simp
      with k m have "\<exists>kw \<in> set alts. contains_keyword cs kw"
        unfolding contains_keyword_def by blast
      with Cons.IH show ?thesis by simp
    qed
  qed
qed

lemma contains_keyword_toLowerCase:
  "contains_keyword (toLowerCase txt) kw = contains_keyword txt kw"
proof
  assume "contains_keyword (toLowerCase txt) kw"
  then obtain pre mid suf where e: "map toLowerCase_char txt = pre @ mid @ suf"
    and m: "map canonicalize mid = map canonicalize kw"
    by (auto simp: contains_keyword_def toLowerCase_def)
  from e have "\<exists>us vs. txt = us @ vs \<and> pre = map toLowerCase_char us \<and>
                  mid @ suf = map toLowerCase_char vs"
    by (simp only: map_eq_append_conv)
  then obtain pre' rest where r: "txt = pre' @ rest" "mid @ suf = map toLowerCase_char rest"
    by blast
  from r(2) have "\<exists>us vs. rest = us @ vs \<and> mid = map toLowerCase_char us \<and>
                  suf = map toLowerCase_char vs"
    by (simp only: append_eq_map_conv)
  then obtain mid' suf' where "rest = mid' @ suf'" and m': "mid = map toLowerCase_char mid'"
    by blast
  with r(1) have t: "txt = pre' @ mid' @ suf'" by simp
  from m m' have "map canonicalize mid' = map canonicalize kw"
    by (simp add: canonicalize_toLowerCase_char comp_def)
  with t show "contains_keyword txt kw" unfolding contains_keyword_def by blast
next
  assume "contains_keyword txt kw"
  then obtain pre mid suf where t: "txt = pre @ mid @ suf"
    and m: "map canonicalize mid = map canonicalize kw"
    by (auto simp: contains_keyword_def)
  have "toLowerCase txt = toLowerCase pre @ toLowerCase mid @ toLowerCase suf"
    using t by (simp add: toLowerCase_def)
  moreover have "map canonicalize (toLowerCase mid) = map canonicalize kw"
    using m by (simp add: toLowerCase_def canonicalize_toLowerCase_char comp_def)
  ultimately show "contains_keyword (toLowerCase txt) kw" unfolding contains_keyword_def by blast
qed

lemma regex_test_lower:
  "regex_test alts (toLowerCase txt) \<longleftrightarrow> (\<exists>kw \<in> set alts. contains_keyword txt kw)"
  by (simp add: regex_test_iff contains_keyword_toLowerCase)

lemma contains_keyword_code: "contains_keyword txt kw = regex_test [kw] txt"
  by (simp add: regex_test_iff)

lemma whitespace_no_keyword:
  assumes "list_all is_whitespace txt" and "kw \<noteq> []" and "\<not> is_whitespace (canonicalize (hd kw))"
  shows "\<not> contains_keyword txt kw"
proof
  assume "contains_keyword txt kw"
  then obtain pre mid suf where t: "txt = pre @ mid @ suf"
    and m: "map canonicalize mid = map canonicalize kw"
    by (auto simp: contains_keyword_def)
  from m assms(2) obtain c cs where mid: "mid = c # cs" by (cases mid) auto
  with m assms(2) have ck: "canonicalize c = canonicalize (hd kw)" by (cases kw) auto
  from t mid assms(1) have w: "is_whitespace c" by (simp add: list_all_iff)
  then have "canonicalize c = c" by (auto simp: is_whitespace_def canonicalize_def Let_def)
  with ck w assms(3) show False by simp
qed



text \<open>
  \<^bold>\<open>C8.\<close> A text that contains none of the mood keywords is classified \<open>neutral\<close>; a
  text that contains none of the mode keywords keeps the current mode, or gets \<open>friend\<close>
  when no current mode is passed. A text of white space only (the empty text included)
  contains no keyword, so it gets both defaults.
\<close>

theorem detect_defaults_without_keyword:
  "((\<forall>kw \<in> set (happy_keywords @ sad_keywords @ stressed_keywords @ excited_keywords).
       \<not> contains_keyword txt kw) \<longrightarrow> detectMood txt = Neutral) \<and>
   ((\<forall>kw \<in> set (code_keywords @ research_keywords). \<not> contains_keyword txt kw) \<longrightarrow>
       detectMode txt currentMode = (case currentMode of Some m \<Rightarrow> m | None \<Rightarrow> Friend)) \<and>
   (list_all is_whitespace txt \<longrightarrow>
       detectMood txt = Neutral \<and>
       detectMode txt currentMode = (case currentMode of Some m \<Rightarrow> m | None \<Rightarrow> Friend))"
proof -
  have mood: "detectMood txt = Neutral"
    if "\<forall>kw \<in> set (happy_keywords @ sad_keywords @ stressed_keywords @ excited_keywords).
       \<not> contains_keyword txt kw"
    using that by (auto simp: detectMood_def Let_def regex_test_lower)
  have mode: "detectMode txt currentMode = (case currentMode of Some m \<Rightarrow> m | None \<Rightarrow> Friend)"
    if "\<forall>kw \<in> set (code_keywords @ research_keywords). \<not> contains_keyword txt kw"
    using that by (auto simp: detectMode_def Let_def regex_test_lower)
  have ws: "\<not> contains_keyword txt kw"
    if "list_all is_whitespace txt"
      and "kw \<in> set (happy_keywords @ sad_keywords @ stressed_keywords @ excited_keywords @
                     code_keywords @ research_keywords)" for kw
  proof (rule whitespace_no_keyword[OF that(1)])
    show "kw \<noteq> []" using that(2)
      by (auto simp: happy_keywords_def sad_keywords_def stressed_keywords_def
            excited_keywords_def code_keywords_def research_keywords_def)
    show "\<not> is_whitespace (canonicalize (hd kw))" using that(2)
      by (auto simp: happy_keywords_def sad_keywords_def stressed_keywords_def
            excited_keywords_def code_keywords_def research_keywords_def
            is_whitespace_def canonicalize_def)
  qed
  show ?thesis using mood mode ws by auto
qed

theorem detect_defaults_without_keyword_witness:
  "detectMood ''ok'' = Neutral \<and> detectMode ''ok'' (Some Research) = Research \<and>
   detectMode ''ok'' None = Friend \<and>
   detectMood '' '' = Neutral \<and> detectMode '' '' None = Friend \<and>
   detectMood [] = Neutral \<and> detectMode [] (Some Code) = Code"
proof -
  have a: "\<forall>kw \<in> set (happy_keywords @ sad_keywords @ stressed_keywords @ excited_keywords).
       \<not> contains_keyword ''ok'' kw"
    by (simp add: happy_keywords_def sad_keywords_def stressed_keywords_def
            excited_keywords_def contains_keyword_code canonicalize_def)
  have b: "\<forall>kw \<in> set (code_keywords @ research_keywords). \<not> contains_keyword ''ok'' kw"
    by (simp add: code_keywords_def research_keywords_def contains_keyword_code canonicalize_def)
  have c: "list_all is_whitespace '' ''" by (simp add: is_whitespace_def)
  have d: "list_all is_whitespace []" by simp
  show ?thesis
    using a b c d
      detect_defaults_without_keyword[of "''ok''" "Some Research"]
      detect_defaults_without_keyword[of "''ok''" None]
      detect_defaults_without_keyword[of "'' ''" None]
      detect_defaults_without_keyword[of "[]" "Some Code"]
    by simp
qed

section \<open>Persistence store: lemmas\<close>

lemma rowids_ok_open_database: "rowids_ok open_database"
  by (simp add: rowids_ok_def open_database_def)

lemma rowids_ok_createSession: "rowids_ok db \<Longrightarrow> rowids_ok (createSession sid title now db)"
  by (simp add: rowids_ok_def createSession_def)

lemma rowids_ok_touchSession: "rowids_ok db \<Longrightarrow> rowids_ok (touchSession sid now db)"
  by (simp add: rowids_ok_def touchSession_def)

lemma rowids_ok_deleteSession: "rowids_ok db \<Longrightarrow> rowids_ok (deleteSession sid db)"
  by (auto simp: rowids_ok_def deleteSession_def list_all_iff distinct_map_filter)

lemma rowids_ok_saveMessage:
  "rowids_ok db \<Longrightarrow> saveMessage sid role content mood mode now now' db = Inr (i, db') \<Longrightarrow>
   rowids_ok db'"
  by (fastforce simp: rowids_ok_def saveMessage_def touchSession_def Let_def list_all_iff
        split: if_splits)

lemma createSession_existing:
  "session_exists sessionId db \<Longrightarrow> createSession sessionId title now db = db"
  by (simp add: createSession_def)

lemma session_exists_createSession: "session_exists sid (createSession sid title now db)"
  by (simp add: createSession_def session_exists_def)

lemma session_exists_touchSession:
  "session_exists sid (touchSession sid' now db) = session_exists sid db"
  by (force simp: touchSession_def session_exists_def)

lemma session_exists_update:
  "session_exists sid (db\<lparr>conversations := c, last_rowid := l\<rparr>) = session_exists sid db"
  by (simp add: session_exists_def)

lemma saveMessage_ok:
  "session_exists sid db \<Longrightarrow>
   saveMessage sid role content mood mode now now' db =
     Inr (last_rowid db + 1,
          touchSession sid now'
            (db\<lparr>conversations := conversations db @
                  [\<lparr>m_id = last_rowid db + 1, m_session_id = sid, m_role = role,
                    m_content = content, m_mood = mood, m_mode = mode, m_timestamp = now\<rparr>],
                last_rowid := last_rowid db + 1\<rparr>))"
  by (simp add: saveMessage_def Let_def)

lemma deleteSession_unenforced:
  "\<not> foreign_keys db \<Longrightarrow> conversations (deleteSession sid db) = conversations db"
  by (simp add: deleteSession_def)

lemma deleteSession_enforced:
  "foreign_keys db \<Longrightarrow> session_exists sid db \<Longrightarrow>
   getConversationHistory sid limit (deleteSession sid db) = []"
  by (simp add: deleteSession_def getConversationHistory_def order_by_timestamp_desc_def
        sql_limit_def)

lemma scan_sorted:
  assumes "distinct (map m_id rows)"
  shows "sorted_wrt (<) (map scan_key (sort_key scan_key rows))"
proof -
  have "m_id = snd \<circ> scan_key" by (auto simp: scan_key_def)
  with assms have "distinct rows" and "inj_on (snd \<circ> scan_key) (set rows)"
    by (simp_all add: distinct_map)
  then have "distinct (sort_key scan_key rows)"
    and "inj_on scan_key (set (sort_key scan_key rows))"
    by (simp_all add: inj_on_imageI2)
  then have "distinct (map scan_key (sort_key scan_key rows))"
    by (simp add: distinct_map)
  then show ?thesis by (simp add: strict_sorted_iff)
qed

lemma history_as_drop:
  "getConversationHistory sessionId (int n) db =
     (let S = sort_key scan_key (session_rows sessionId db) in drop (length S - n) S)"
  by (simp add: getConversationHistory_def sql_limit_def order_by_timestamp_desc_def
        session_rows_def take_rev Let_def)

text \<open>
  \<^bold>\<open>C4.\<close> For every session and every limit \<open>n\<close>, \<open>getConversationHistory\<close> returns at
  most \<open>n\<close> turns (exactly \<open>n\<close>, or all the session's turns when it has fewer); they are
  turns of that session and every turn of the session left out is older than every turn
  returned; they are in chronological order, oldest first, turns of the same timestamp
  in the order of their ids; and the result is the reverse of the first \<open>n\<close> rows of a
  scan that runs from the most recent turn to the oldest.
\<close>

theorem getConversationHistory_recent_chronological:
  assumes "rowids_ok db"
  shows
   "length (getConversationHistory sessionId (int n) db) \<le> n \<and>
    length (getConversationHistory sessionId (int n) db) =
      min n (length (session_rows sessionId db)) \<and>
    set (getConversationHistory sessionId (int n) db) \<subseteq> set (session_rows sessionId db) \<and>
    (\<forall>x \<in> set (getConversationHistory sessionId (int n) db).
       \<forall>y \<in> set (session_rows sessionId db) - set (getConversationHistory sessionId (int n) db).
          m_timestamp y < m_timestamp x \<or> (m_timestamp y = m_timestamp x \<and> m_id y < m_id x)) \<and>
    sorted_wrt
      (\<lambda>a b. m_timestamp a < m_timestamp b \<or> (m_timestamp a = m_timestamp b \<and> m_id a < m_id b))
      (getConversationHistory sessionId (int n) db) \<and>
    getConversationHistory sessionId (int n) db =
      rev (take n (order_by_timestamp_desc (session_rows sessionId db))) \<and>
    sorted_wrt
      (\<lambda>a b. m_timestamp b < m_timestamp a \<or> (m_timestamp b = m_timestamp a \<and> m_id b < m_id a))
      (order_by_timestamp_desc (session_rows sessionId db))"
proof -
  define S where "S = sort_key scan_key (session_rows sessionId db)"
  define k where "k = length S - n"
  have H: "getConversationHistory sessionId (int n) db = drop k S"
    by (simp add: history_as_drop S_def k_def Let_def)
  have d: "distinct (map m_id (session_rows sessionId db))"
    using assms by (simp add: rowids_ok_def session_rows_def distinct_map_filter)
  have st: "sorted_wrt (<) (map scan_key S)" unfolding S_def by (rule scan_sorted[OF d])
  have setS: "set S = set (session_rows sessionId db)" by (simp add: S_def)
  have lenS: "length S = length (session_rows sessionId db)" by (simp add: S_def)
  have keyp: "scan_key a < scan_key b \<longleftrightarrow>
      m_timestamp a < m_timestamp b \<or> (m_timestamp a = m_timestamp b \<and> m_id a < m_id b)"
    for a b by (auto simp: scan_key_def)
  have 1: "length (drop k S) = min n (length (session_rows sessionId db))"
    using lenS by (simp add: k_def)
  have 2: "set (drop k S) \<subseteq> set (session_rows sessionId db)"
    using set_drop_subset[of k S] setS by simp
  have parts: "sorted_wrt (<) (map scan_key (take k S) @ map scan_key (drop k S))"
    using st by (metis append_take_drop_id map_append)
  have 3: "\<forall>x \<in> set (drop k S). \<forall>y \<in> set (session_rows sessionId db) - set (drop k S).
             scan_key y < scan_key x"
  proof (intro ballI)
    fix x y
    assume x: "x \<in> set (drop k S)"
      and y: "y \<in> set (session_rows sessionId db) - set (drop k S)"
    have "set S = set (take k S) \<union> set (drop k S)" by (metis append_take_drop_id set_append)
    with y setS have "y \<in> set (take k S)" by auto
    with x parts show "scan_key y < scan_key x" by (auto simp: sorted_wrt_append)
  qed
  then have newer: "\<forall>x \<in> set (drop k S). \<forall>y \<in> set (session_rows sessionId db) - set (drop k S).
      m_timestamp y < m_timestamp x \<or> (m_timestamp y = m_timestamp x \<and> m_id y < m_id x)"
    by (simp only: keyp)
  have "sorted_wrt (<) (map scan_key (drop k S))" using parts by (simp add: sorted_wrt_append)
  then have "sorted_wrt (\<lambda>a b. scan_key a < scan_key b) (drop k S)"
    by (simp add: sorted_wrt_map)
  then have 4: "sorted_wrt
      (\<lambda>a b. m_timestamp a < m_timestamp b \<or> (m_timestamp a = m_timestamp b \<and> m_id a < m_id b))
      (drop k S)"
    by (simp only: keyp)
  have 5: "drop k S = rev (take n (order_by_timestamp_desc (session_rows sessionId db)))"
    by (simp add: order_by_timestamp_desc_def take_rev S_def k_def)
  have "sorted_wrt (\<lambda>a b. scan_key a < scan_key b) S" using st by (simp add: sorted_wrt_map)
  then have "sorted_wrt (\<lambda>a b. scan_key b < scan_key a) (rev S)"
    by (simp add: sorted_wrt_rev)
  then have 6: "sorted_wrt
      (\<lambda>a b. m_timestamp b < m_timestamp a \<or> (m_timestamp b = m_timestamp a \<and> m_id b < m_id a))
      (order_by_timestamp_desc (session_rows sessionId db))"
    by (simp only: order_by_timestamp_desc_def S_def keyp)
  from 1 have 0: "length (drop k S) \<le> n" by simp
  show ?thesis unfolding H using 0 1 2 newer 4 5 6 by (intro conjI)
qed

theorem getConversationHistory_recent_chronological_witness:
  "rowids_ok sample_db \<and>
   map m_id (session_rows ''s1'' sample_db) = [1, 3, 4] \<and>
   map m_id (getConversationHistory ''s1'' (int 2) sample_db) = [3, 4] \<and>
   length (getConversationHistory ''s1'' (int 2) sample_db) = 2 \<and>
   sorted_wrt
     (\<lambda>a b. m_timestamp a < m_timestamp b \<or> (m_timestamp a = m_timestamp b \<and> m_id a < m_id b))
     (getConversationHistory ''s1'' (int 2) sample_db)"
proof -
  have h: "rowids_ok sample_db" by (simp add: rowids_ok_def sample_db_def)
  have r: "map m_id (session_rows ''s1'' sample_db) = [1, 3, 4]"
    by (simp add: session_rows_def sample_db_def)
  then have "length (session_rows ''s1'' sample_db) = 3"
    by (metis length_map length_Cons list.size(3) numeral_3_eq_3)
  then have n: "min 2 (length (session_rows ''s1'' sample_db)) = 2" by simp
  note T = getConversationHistory_recent_chronological[OF h, of "''s1''" 2]
  from T have a: "length (getConversationHistory ''s1'' (int 2) sample_db) =
      min 2 (length (session_rows ''s1'' sample_db))"
    by (elim conjE)
  from T have b: "sorted_wrt
     (\<lambda>a b. m_timestamp a < m_timestamp b \<or> (m_timestamp a = m_timestamp b \<and> m_id a < m_id b))
     (getConversationHistory ''s1'' (int 2) sample_db)"
    by (elim conjE)
  have v: "map m_id (getConversationHistory ''s1'' (int 2) sample_db) = [3, 4]"
    by (simp add: getConversationHistory_def sample_db_def order_by_timestamp_desc_def
          sql_limit_def scan_key_def)
  from h r v a b n show ?thesis by (simp only: simp_thms)
qed

section \<open>Chat service: lemmas\<close>

lemma post_chat_invalid:
  assumes "q_message req = None \<or> (\<exists>m. q_message req = Some m \<and> list_all is_whitespace m)"
  shows "post_chat p clock req db =
     (\<lparr>http_status = 400,
       http_body = \<lparr>r_response = ''I didn't catch that. Can you type something?'',
                    r_mood = Neutral,
                    r_mode = (case q_mode req of Some m \<Rightarrow> m | None \<Rightarrow> Friend)\<rparr>\<rparr>, db)"
  using assms by (auto simp: post_chat_def Let_def trim_blank)

lemma post_chat_valid:
  assumes "q_message req = Some message" and "trim message \<noteq> []"
  shows "\<exists>history db'.
    post_chat p clock req db =
      (\<lparr>http_status = 200,
        http_body =
          \<lparr>r_response = fst (generateAIResponse p (trim message) (detectMood (trim message))
                              (detectMode (trim message) (q_mode req)) history 2
                              \<lparr>calls = 0, slept_ms = 0\<rparr>),
           r_mood = detectMood (trim message),
           r_mode = detectMode (trim message) (q_mode req)\<rparr>\<rparr>, db') \<and>
    conversations db' = conversations db @
      [\<lparr>m_id = last_rowid db + 1, m_session_id = request_session req,
        m_role = User, m_content = trim message,
        m_mood = Some (mood_str (detectMood (trim message))),
        m_mode = Some (mode_str (detectMode (trim message) (q_mode req))),
        m_timestamp = clock 1\<rparr>,
       \<lparr>m_id = last_rowid db + 2, m_session_id = request_session req,
        m_role = Assistant,
        m_content = fst (generateAIResponse p (trim message) (detectMood (trim message))
                              (detectMode (trim message) (q_mode req)) history 2
                              \<lparr>calls = 0, slept_ms = 0\<rparr>),
        m_mood = Some (mood_str (detectMood (trim message))),
        m_mode = Some (mode_str (detectMode (trim message) (q_mode req))),
        m_timestamp = clock 3\<rparr>] \<and>
    foreign_keys db' = foreign_keys db \<and> last_rowid db' = last_rowid db + 2 \<and>
    session_exists (request_session req) db' \<and>
    map (\<lambda>s. (s_id s, s_title s)) (sessions db') =
      map (\<lambda>s. (s_id s, s_title s))
        (sessions (createSession (request_session req)
                     (substring (trim message) 0 50 @ ''...'') (clock 0) db))"
  unfolding request_session_def
proof -
  let ?sid = "case q_sessionId req of Some s \<Rightarrow> s | None \<Rightarrow> ''default''"
  let ?db1 = "createSession ?sid (substring (trim message) 0 50 @ ''...'') (clock 0) db"
  have m: "message \<noteq> []" using assms(2) by (auto simp: trim_def)
  have e1: "session_exists ?sid ?db1" by (rule session_exists_createSession)
  have c1: "conversations ?db1 = conversations db" "last_rowid ?db1 = last_rowid db"
    "foreign_keys ?db1 = foreign_keys db"
    by (simp_all add: createSession_def)
  let ?db2 = "touchSession ?sid (clock 2)
            (?db1\<lparr>conversations := conversations ?db1 @
                  [\<lparr>m_id = last_rowid ?db1 + 1, m_session_id = ?sid, m_role = User,
                    m_content = trim message,
                    m_mood = Some (mood_str (detectMood (trim message))),
                    m_mode = Some (mode_str (detectMode (trim message) (q_mode req))),
                    m_timestamp = clock 1\<rparr>],
                last_rowid := last_rowid ?db1 + 1\<rparr>)"
  have e2: "session_exists ?sid ?db2"
    using e1 by (simp only: session_exists_touchSession session_exists_update)
  have s1: "saveMessage ?sid User (trim message)
              (Some (mood_str (detectMood (trim message))))
              (Some (mode_str (detectMode (trim message) (q_mode req))))
              (clock 1) (clock 2) ?db1 = Inr (last_rowid ?db1 + 1, ?db2)"
    by (rule saveMessage_ok[OF e1])
  let ?history = "getConversationHistory ?sid 10 ?db2"
  let ?response = "fst (generateAIResponse p (trim message) (detectMood (trim message))
                          (detectMode (trim message) (q_mode req)) ?history 2
                          \<lparr>calls = 0, slept_ms = 0\<rparr>)"
  let ?db3 = "touchSession ?sid (clock 4)
            (?db2\<lparr>conversations := conversations ?db2 @
                  [\<lparr>m_id = last_rowid ?db2 + 1, m_session_id = ?sid, m_role = Assistant,
                    m_content = ?response,
                    m_mood = Some (mood_str (detectMood (trim message))),
                    m_mode = Some (mode_str (detectMode (trim message) (q_mode req))),
                    m_timestamp = clock 3\<rparr>],
                last_rowid := last_rowid ?db2 + 1\<rparr>)"
  have s2: "saveMessage ?sid Assistant ?response
              (Some (mood_str (detectMood (trim message))))
              (Some (mode_str (detectMode (trim message) (q_mode req))))
              (clock 3) (clock 4) ?db2 = Inr (last_rowid ?db2 + 1, ?db3)"
    by (rule saveMessage_ok[OF e2])
  have e3: "session_exists ?sid ?db3"
    using e2 by (simp only: session_exists_touchSession session_exists_update)
  have pc: "post_chat p clock req db =
      (\<lparr>http_status = 200,
        http_body = \<lparr>r_response = ?response, r_mood = detectMood (trim message),
           r_mode = detectMode (trim message) (q_mode req)\<rparr>\<rparr>, ?db3)"
    unfolding post_chat_def Let_def
    by (simp only: assms m s1 s2 option.case sum.case prod.case if_False simp_thms)
  have conv: "conversations ?db3 = conversations db @
      [\<lparr>m_id = last_rowid db + 1, m_session_id = ?sid,
        m_role = User, m_content = trim message,
        m_mood = Some (mood_str (detectMood (trim message))),
        m_mode = Some (mode_str (detectMode (trim message) (q_mode req))),
        m_timestamp = clock 1\<rparr>,
       \<lparr>m_id = last_rowid db + 2, m_session_id = ?sid,
        m_role = Assistant, m_content = ?response,
        m_mood = Some (mood_str (detectMood (trim message))),
        m_mode = Some (mode_str (detectMode (trim message) (q_mode req))),
        m_timestamp = clock 3\<rparr>]"
    by (simp add: touchSession_def c1)
  have fk: "foreign_keys ?db3 = foreign_keys db"
    by (simp add: touchSession_def c1)
  have lr: "last_rowid ?db3 = last_rowid db + 2"
    by (simp add: touchSession_def c1)
  have ss: "map (\<lambda>s. (s_id s, s_title s)) (sessions ?db3) =
      map (\<lambda>s. (s_id s, s_title s)) (sessions ?db1)"
    by (simp add: touchSession_def comp_def)
  show "\<exists>history db'.
    post_chat p clock req db =
      (\<lparr>http_status = 200,
        http_body =
          \<lparr>r_response = fst (generateAIResponse p (trim message) (detectMood (trim message))
                              (detectMode (trim message) (q_mode req)) history 2
                              \<lparr>calls = 0, slept_ms = 0\<rparr>),
           r_mood = detectMood (trim message),
           r_mode = detectMode (trim message) (q_mode req)\<rparr>\<rparr>, db') \<and>
    conversations db' = conversations db @
      [\<lparr>m_id = last_rowid db + 1, m_session_id = ?sid,
        m_role = User, m_content = trim message,
        m_mood = Some (mood_str (detectMood (trim message))),
        m_mode = Some (mode_str (detectMode (trim message) (q_mode req))),
        m_timestamp = clock 1\<rparr>,
       \<lparr>m_id = last_rowid db + 2, m_session_id = ?sid,
        m_role = Assistant,
        m_content = fst (generateAIResponse p (trim message) (detectMood (trim message))
                              (detectMode (trim message) (q_mode req)) history 2
                              \<lparr>calls = 0, slept_ms = 0\<rparr>),
        m_mood = Some (mood_str (detectMood (trim message))),
        m_mode = Some (mode_str (detectMode (trim message) (q_mode req))),
        m_timestamp = clock 3\<rparr>] \<and>
    foreign_keys db' = foreign_keys db \<and> last_rowid db' = last_rowid db + 2 \<and>
    session_exists ?sid db' \<and>
    map (\<lambda>s. (s_id s, s_title s)) (sessions db') =
      map (\<lambda>s. (s_id s, s_title s)) (sessions ?db1)"
    apply (rule exI[of _ ?history])
    apply (rule exI[of _ ?db3])
    using pc conv fk lr e3 ss by (simp only: simp_thms)
qed

lemma post_chat_status:
  "http_status (fst (post_chat p clock req db)) = 200 \<Longrightarrow>
   \<exists>message. q_message req = Some message \<and> trim message \<noteq> []"
proof (rule ccontr)
  assume ok: "http_status (fst (post_chat p clock req db)) = 200"
  assume "\<not> (\<exists>message. q_message req = Some message \<and> trim message \<noteq> [])"
  then have "q_message req = None \<or> (\<exists>m. q_message req = Some m \<and> list_all is_whitespace m)"
    by (cases "q_message req") (auto simp: trim_empty_iff)
  from post_chat_invalid[OF this, of p clock db] ok show False by simp
qed

lemma rowids_ok_post_chat:
  assumes "rowids_ok db"
  shows "rowids_ok (snd (post_chat p clock req db))"
proof (cases "\<exists>message. q_message req = Some message \<and> trim message \<noteq> []")
  case True
  then obtain message where m: "q_message req = Some message" "trim message \<noteq> []"
    by blast
  from post_chat_valid[OF m, of p clock db] obtain u a db' where
    "snd (post_chat p clock req db) = db'" and "conversations db' = conversations db @ [u, a]"
    and "m_id u = last_rowid db + 1" and "m_id a = last_rowid db + 2"
    and "last_rowid db' = last_rowid db + 2"
    by force
  with assms show ?thesis by (fastforce simp: rowids_ok_def list_all_iff)
next
  case False
  then have "q_message req = None \<or>
      (\<exists>m. q_message req = Some m \<and> list_all is_whitespace m)"
    by (cases "q_message req") (auto simp: trim_empty_iff)
  from post_chat_invalid[OF this, of p clock db] assms show ?thesis by simp
qed

text \<open>
  \<^bold>\<open>C5.\<close> Creating a session whose id is already in the store changes nothing, whatever
  the title: the store, and so the title of the existing session, stays as it was. Creating
  the same id twice is the same as creating it once. In particular a \<open>POST /api/chat\<close>
  for a session that exists leaves the ids and titles of all sessions as they were.
\<close>

theorem createSession_idempotent:
  "(session_exists sessionId db \<longrightarrow> createSession sessionId title now db = db) \<and>
   createSession sessionId title' now' (createSession sessionId title now db) =
     createSession sessionId title now db \<and>
   (session_exists (request_session req) db \<longrightarrow>
      map (\<lambda>s. (s_id s, s_title s)) (sessions (snd (post_chat p clock req db))) =
      map (\<lambda>s. (s_id s, s_title s)) (sessions db))"
proof (intro conjI impI)
  show "createSession sessionId title now db = db" if "session_exists sessionId db"
    using that by (simp add: createSession_def)
  show "createSession sessionId title' now' (createSession sessionId title now db) =
     createSession sessionId title now db"
    by (simp add: createSession_def session_exists_def)
  assume e: "session_exists (request_session req) db"
  show "map (\<lambda>s. (s_id s, s_title s)) (sessions (snd (post_chat p clock req db))) =
      map (\<lambda>s. (s_id s, s_title s)) (sessions db)"
  proof (cases "\<exists>message. q_message req = Some message \<and> trim message \<noteq> []")
    case True
    then obtain message where m: "q_message req = Some message" "trim message \<noteq> []"
      by blast
    from post_chat_valid[OF m, of p clock db] obtain db' where
      "snd (post_chat p clock req db) = db'"
      and "map (\<lambda>s. (s_id s, s_title s)) (sessions db') =
        map (\<lambda>s. (s_id s, s_title s))
          (sessions (createSession (request_session req)
                       (substring (trim message) 0 50 @ ''...'') (clock 0) db))"
      by force
    with e show ?thesis by (simp add: createSession_existing)
  next
    case False
    then have "q_message req = None \<or>
        (\<exists>m. q_message req = Some m \<and> list_all is_whitespace m)"
      by (cases "q_message req") (auto simp: trim_empty_iff)
    from post_chat_invalid[OF this, of p clock db] show ?thesis by simp
  qed
qed

theorem createSession_idempotent_witness:
  "session_exists ''s1'' sample_db \<and>
   createSession ''s1'' ''another title'' 2000 sample_db = sample_db \<and>
   map s_title (sessions (createSession ''s1'' ''another title'' 2000 sample_db)) =
     [''first title'', ''other''] \<and>
   map (\<lambda>s. (s_id s, s_title s))
     (sessions (snd (post_chat (always_answers ''hello'') same_second excited_request sample_db))) =
     [(''s1'', ''first title''), (''s2'', ''other'')]"
proof -
  have h: "session_exists ''s1'' sample_db" by (simp add: session_exists_def sample_db_def)
  have r: "request_session excited_request = ''s1''"
    by (simp add: request_session_def excited_request_def)
  have t: "map s_title (sessions sample_db) = [''first title'', ''other'']"
    "map (\<lambda>s. (s_id s, s_title s)) (sessions sample_db) =
       [(''s1'', ''first title''), (''s2'', ''other'')]"
    by (simp_all add: sample_db_def)
  note T = createSession_idempotent[where sessionId = "''s1''" and db = sample_db
      and title = "''another title''" and now = 2000 and req = excited_request
      and p = "always_answers ''hello''" and clock = same_second]
  from T h have a: "createSession ''s1'' ''another title'' 2000 sample_db = sample_db"
    by blast
  from T h have b: "map (\<lambda>s. (s_id s, s_title s))
     (sessions (snd (post_chat (always_answers ''hello'') same_second excited_request sample_db))) =
     map (\<lambda>s. (s_id s, s_title s)) (sessions sample_db)"
    unfolding r by blast
  from h a b t show ?thesis by simp
qed

text \<open>
  \<^bold>\<open>C7.\<close> A \<open>POST /api/chat\<close> whose message is missing, empty or white space only is
  answered with status 400, the canned reply, mood \<open>neutral\<close> and the request's mode
  (\<open>friend\<close> when it has none); the store is left as it was, so no turn is persisted.
\<close>

theorem blank_message_rejected:
  assumes "q_message req = None \<or> (\<exists>m. q_message req = Some m \<and> list_all is_whitespace m)"
  shows "post_chat p clock req db =
     (\<lparr>http_status = 400,
       http_body = \<lparr>r_response = ''I didn't catch that. Can you type something?'',
                    r_mood = Neutral,
                    r_mode = (case q_mode req of Some m \<Rightarrow> m | None \<Rightarrow> Friend)\<rparr>\<rparr>, db)"
  using assms by (rule post_chat_invalid)

theorem blank_message_rejected_witness:
  "http_status (fst (post_chat (always_answers ''hello'') same_second blank_request sample_db))
     = 400 \<and>
   r_mood (http_body
     (fst (post_chat (always_answers ''hello'') same_second blank_request sample_db))) = Neutral \<and>
   r_mode (http_body
     (fst (post_chat (always_answers ''hello'') same_second blank_request sample_db))) = Code \<and>
   snd (post_chat (always_answers ''hello'') same_second blank_request sample_db) = sample_db"
proof -
  have "list_all is_whitespace ''  ''" by (simp add: is_whitespace_def)
  then have h: "q_message blank_request = None \<or>
      (\<exists>m. q_message blank_request = Some m \<and> list_all is_whitespace m)"
    by (simp add: blank_request_def)
  have "q_mode blank_request = Some Code" by (simp add: blank_request_def)
  with blank_message_rejected[OF h, of "always_answers ''hello''" same_second sample_db]
  show ?thesis by simp
qed

text \<open>
  \<^bold>\<open>C10.\<close> A \<open>POST /api/chat\<close> answered with status 200 has appended exactly two turns
  to the store, the user's and then the assistant's, under the request's session; both
  carry the same mood and mode labels, and these are the mood and the mode of the response
  body. The assistant's turn holds the response text.
\<close>

theorem chat_turns_share_labels:
  assumes "http_status (fst (post_chat p clock req db)) = 200"
  shows "\<exists>u a. conversations (snd (post_chat p clock req db)) = conversations db @ [u, a] \<and>
     m_role u = User \<and> m_role a = Assistant \<and>
     m_session_id u = request_session req \<and> m_session_id a = request_session req \<and>
     m_content a = r_response (http_body (fst (post_chat p clock req db))) \<and>
     m_mood a = m_mood u \<and> m_mode a = m_mode u \<and>
     m_mood u = Some (mood_str (r_mood (http_body (fst (post_chat p clock req db))))) \<and>
     m_mode u = Some (mode_str (r_mode (http_body (fst (post_chat p clock req db)))))"
proof -
  from post_chat_status[OF assms] obtain message where
    m: "q_message req = Some message" "trim message \<noteq> []" by blast
  from post_chat_valid[OF m, of p clock db] obtain history db' where
    pc: "post_chat p clock req db =
      (\<lparr>http_status = 200,
        http_body =
          \<lparr>r_response = fst (generateAIResponse p (trim message) (detectMood (trim message))
                              (detectMode (trim message) (q_mode req)) history 2
                              \<lparr>calls = 0, slept_ms = 0\<rparr>),
           r_mood = detectMood (trim message),
           r_mode = detectMode (trim message) (q_mode req)\<rparr>\<rparr>, db')"
    and conv: "conversations db' = conversations db @
      [\<lparr>m_id = last_rowid db + 1, m_session_id = request_session req,
        m_role = User, m_content = trim message,
        m_mood = Some (mood_str (detectMood (trim message))),
        m_mode = Some (mode_str (detectMode (trim message) (q_mode req))),
        m_timestamp = clock 1\<rparr>,
       \<lparr>m_id = last_rowid db + 2, m_session_id = request_session req,
        m_role = Assistant,
        m_content = fst (generateAIResponse p (trim message) (detectMood (trim message))
                              (detectMode (trim message) (q_mode req)) history 2
                              \<lparr>calls = 0, slept_ms = 0\<rparr>),
        m_mood = Some (mood_str (detectMood (trim message))),
        m_mode = Some (mode_str (detectMode (trim message) (q_mode req))),
        m_timestamp = clock 3\<rparr>]"
    by blast
  show ?thesis
    unfolding pc fst_conv snd_conv conv
    by (intro exI conjI) (rule refl, simp_all)
qed


theorem chat_turns_share_labels_witness:
  "http_status
     (fst (post_chat (always_answers ''hello'') same_second excited_request open_database)) = 200 \<and>
   (\<exists>u a. conversations
        (snd (post_chat (always_answers ''hello'') same_second excited_request open_database)) =
          [u, a] \<and>
      m_role u = User \<and> m_role a = Assistant \<and> m_mood a = m_mood u \<and> m_mode a = m_mode u)"
proof -
  have "trim ''I'm so excited about this!'' \<noteq> []"
    by (simp add: trim_def is_whitespace_def)
  then have "\<exists>message. q_message excited_request = Some message \<and> trim message \<noteq> []"
    by (simp add: excited_request_def)
  then obtain message where
    "q_message excited_request = Some message" and "trim message \<noteq> []" by blast
  from post_chat_valid[OF this, of "always_answers ''hello''" same_second open_database]
  have h: "http_status
     (fst (post_chat (always_answers ''hello'') same_second excited_request open_database)) = 200"
    by auto
  have "conversations open_database = []" by (simp add: open_database_def)
  with chat_turns_share_labels[OF h] h show ?thesis by auto
qed

section \<open>Generation client adapter: lemmas\<close>

lemma gen_trace:
  "generateAIResponse p message mood mode history retries st = (reply, st') \<Longrightarrow>
     calls st < calls st' \<and> calls st' \<le> calls st + retries + 1 \<and>
     slept_ms st' = slept_ms st + 1000 * (calls st' - calls st - 1) \<and>
     (\<forall>k. calls st \<le> k \<and> k + 1 < calls st' \<longrightarrow>
        (\<exists>status. p (build_prompt message mood mode history) k = Failure status \<and>
                  status \<noteq> Some 400 \<and> status \<noteq> Some 403)) \<and>
     (case p (build_prompt message mood mode history) (calls st' - 1) of
        Text t \<Rightarrow> reply = t
      | Failure status \<Rightarrow>
          reply = apology status \<and>
          (calls st' = calls st + retries + 1 \<or> status = Some 400 \<or> status = Some 403))"
proof (induction p message mood mode history retries st arbitrary: reply st'
       rule: generateAIResponse.induct)
  case (1 p message mood mode history retries st)
  let ?prompt = "build_prompt message mood mode history"
  note eq = "1.prems"[unfolded generateAIResponse.simps[of p message mood mode history retries st]]
  show ?case
  proof (cases "p ?prompt (calls st)")
    case (Text t)
    with eq show ?thesis by auto
  next
    case (Failure status)
    show ?thesis
    proof (cases "retries > 0 \<and> status \<noteq> Some 400 \<and> status \<noteq> Some 403")
      case True
      let ?st1 = "st\<lparr>calls := calls st + 1, slept_ms := slept_ms st + 1000\<rparr>"
      from eq Failure True
      have rec: "generateAIResponse p message mood mode history (retries - 1) ?st1 = (reply, st')"
        by simp
      note ih = "1.IH"[OF Failure True rec]
      have a: "calls st < calls st'" "calls st' \<le> calls st + retries + 1"
        "slept_ms st' = slept_ms st + 1000 * (calls st' - calls st - 1)"
        using ih True by auto
      have b: "\<forall>k. calls st \<le> k \<and> k + 1 < calls st' \<longrightarrow>
        (\<exists>status. p ?prompt k = Failure status \<and> status \<noteq> Some 400 \<and> status \<noteq> Some 403)"
      proof (intro allI impI)
        fix k assume k: "calls st \<le> k \<and> k + 1 < calls st'"
        show "\<exists>status. p ?prompt k = Failure status \<and> status \<noteq> Some 400 \<and> status \<noteq> Some 403"
        proof (cases "k = calls st")
          case True
          with Failure \<open>retries > 0 \<and> status \<noteq> Some 400 \<and> status \<noteq> Some 403\<close>
          show ?thesis by simp
        next
          case False
          with k have "calls ?st1 \<le> k \<and> k + 1 < calls st'" by simp
          with ih show ?thesis by blast
        qed
      qed
      have c: "(case p ?prompt (calls st' - 1) of
        Text t \<Rightarrow> reply = t
      | Failure status \<Rightarrow>
          reply = apology status \<and>
          (calls st' = calls st + retries + 1 \<or> status = Some 400 \<or> status = Some 403))"
        using ih True by (auto split: gen_result.splits)
      show ?thesis using a b c by blast
    next
      case False
      with eq Failure
      have r: "reply = apology status" "st' = st\<lparr>calls := calls st + 1\<rparr>"
        by (auto simp: apology_def split: if_splits)
      with Failure False show ?thesis by auto
    qed
  qed
qed

text \<open>
  \<^bold>\<open>C3.\<close> The claim that no error of the 4xx class is retried fails at status 429: with a
  budget of two retries the provider is called three times.
\<close>

theorem status_429_is_retried:
  "(400 \<le> (429::nat) \<and> (429::nat) < 500) \<and>
   calls (snd (generateAIResponse (always_fails (Some 429)) ''hi'' Neutral Friend [] 2
                \<lparr>calls = 0, slept_ms = 0\<rparr>)) = 3 \<and>
   slept_ms (snd (generateAIResponse (always_fails (Some 429)) ''hi'' Neutral Friend [] 2
                \<lparr>calls = 0, slept_ms = 0\<rparr>)) = 2000"
  by (simp add: generateAIResponse.simps always_fails_def)

text \<open>
  \<^bold>\<open>C3\<close>, as the code has it. Whatever the prompt and the budget, the adapter calls the
  provider at least once and at most \<open>retries + 1\<close> times; it sleeps 1000 ms before each
  call after the first; every call but the last failed, with a status other than 400 and
  403 (so an error of status 400 or 403 is never retried); and when the last call failed
  as well, either the budget was used up or its status was 400 or 403.
\<close>

theorem generateAIResponse_retry_policy:
  "1 \<le> calls (snd (generateAIResponse p message mood mode history retries
                      \<lparr>calls = 0, slept_ms = 0\<rparr>)) \<and>
   calls (snd (generateAIResponse p message mood mode history retries
                 \<lparr>calls = 0, slept_ms = 0\<rparr>)) \<le> retries + 1 \<and>
   slept_ms (snd (generateAIResponse p message mood mode history retries
                    \<lparr>calls = 0, slept_ms = 0\<rparr>)) =
     1000 * (calls (snd (generateAIResponse p message mood mode history retries
                           \<lparr>calls = 0, slept_ms = 0\<rparr>)) - 1) \<and>
   (\<forall>k. k + 1 < calls (snd (generateAIResponse p message mood mode history retries
                              \<lparr>calls = 0, slept_ms = 0\<rparr>)) \<longrightarrow>
      (\<exists>status. p (build_prompt message mood mode history) k = Failure status \<and>
                status \<noteq> Some 400 \<and> status \<noteq> Some 403)) \<and>
   (\<forall>status. p (build_prompt message mood mode history)
               (calls (snd (generateAIResponse p message mood mode history retries
                              \<lparr>calls = 0, slept_ms = 0\<rparr>)) - 1) = Failure status \<longrightarrow>
      calls (snd (generateAIResponse p message mood mode history retries
                    \<lparr>calls = 0, slept_ms = 0\<rparr>)) = retries + 1 \<or>
      status = Some 400 \<or> status = Some 403)"
proof -
  obtain reply st' where
    r: "generateAIResponse p message mood mode history retries \<lparr>calls = 0, slept_ms = 0\<rparr> =
          (reply, st')"
    by (cases "generateAIResponse p message mood mode history retries \<lparr>calls = 0, slept_ms = 0\<rparr>")
  from gen_trace[OF r] show ?thesis unfolding r snd_conv by (auto split: gen_result.splits)
qed


theorem generateAIResponse_retry_policy_witness:
  "calls (snd (generateAIResponse (always_fails (Some 403)) ''hi'' Neutral Friend [] 2
                \<lparr>calls = 0, slept_ms = 0\<rparr>)) = 1 \<and>
   slept_ms (snd (generateAIResponse (always_fails (Some 403)) ''hi'' Neutral Friend [] 2
                \<lparr>calls = 0, slept_ms = 0\<rparr>)) = 0"
proof -
  let ?n = "calls (snd (generateAIResponse (always_fails (Some 403)) ''hi'' Neutral Friend [] 2
                \<lparr>calls = 0, slept_ms = 0\<rparr>))"
  note T = generateAIResponse_retry_policy[of "always_fails (Some 403)" "''hi''" Neutral Friend "[]" 2]
  from T have lo: "1 \<le> ?n" by (elim conjE)
  from T have sl: "slept_ms (snd (generateAIResponse (always_fails (Some 403)) ''hi'' Neutral
      Friend [] 2 \<lparr>calls = 0, slept_ms = 0\<rparr>)) = 1000 * (?n - 1)" by (elim conjE)
  from T have "\<forall>k. k + 1 < ?n \<longrightarrow>
      (\<exists>status. always_fails (Some 403) (build_prompt ''hi'' Neutral Friend []) k = Failure status \<and>
                status \<noteq> Some 400 \<and> status \<noteq> Some 403)" by (elim conjE)
  then have "\<not> (0 + 1 < ?n)" by (auto simp: always_fails_def)
  with lo have "?n = 1" by simp
  with sl show ?thesis by simp
qed

text \<open>
  \<^bold>\<open>C6.\<close> When the last call that \<open>generateAIResponse\<close> makes fails (the retries are
  used up, or the error is one that is not retried), the result is the apology for that
  error's status; nothing is thrown. So a valid \<open>POST /api/chat\<close> whose provider fails at
  every call is still answered with status 200 and one of the three apologies as text.
\<close>

theorem generation_failure_absorbed:
  "(\<forall>status. p (build_prompt message mood mode history)
               (calls (snd (generateAIResponse p message mood mode history retries st)) - 1) =
               Failure status \<longrightarrow>
      fst (generateAIResponse p message mood mode history retries st) =
        (if status = Some 429 then rate_limited_reply
         else if status = Some 400 \<or> status = Some 403 then confused_reply
         else trouble_reply)) \<and>
   (q_message req = Some msg \<and> trim msg \<noteq> [] \<and> (\<forall>prompt k. \<exists>status. p prompt k = Failure status) \<longrightarrow>
      http_status (fst (post_chat p clock req db)) = 200 \<and>
      r_response (http_body (fst (post_chat p clock req db))) \<in>
        {rate_limited_reply, confused_reply, trouble_reply})"
proof (intro conjI allI impI)
  fix status
  assume f: "p (build_prompt message mood mode history)
               (calls (snd (generateAIResponse p message mood mode history retries st)) - 1) =
               Failure status"
  obtain reply st' where
    r: "generateAIResponse p message mood mode history retries st = (reply, st')"
    by (cases "generateAIResponse p message mood mode history retries st")
  from gen_trace[OF r] f show "fst (generateAIResponse p message mood mode history retries st) =
        (if status = Some 429 then rate_limited_reply
         else if status = Some 400 \<or> status = Some 403 then confused_reply
         else trouble_reply)"
    unfolding r by (simp add: apology_def)
next
  assume a: "q_message req = Some msg \<and> trim msg \<noteq> [] \<and>
             (\<forall>prompt k. \<exists>status. p prompt k = Failure status)"
  then have m: "q_message req = Some msg" "trim msg \<noteq> []" by simp_all
  from post_chat_valid[OF m, of p clock db] obtain history where
    pc: "fst (post_chat p clock req db) =
      \<lparr>http_status = 200,
        http_body =
          \<lparr>r_response = fst (generateAIResponse p (trim msg) (detectMood (trim msg))
                              (detectMode (trim msg) (q_mode req)) history 2
                              \<lparr>calls = 0, slept_ms = 0\<rparr>),
           r_mood = detectMood (trim msg),
           r_mode = detectMode (trim msg) (q_mode req)\<rparr>\<rparr>"
    by force
  obtain reply st' where
    r: "generateAIResponse p (trim msg) (detectMood (trim msg))
          (detectMode (trim msg) (q_mode req)) history 2 \<lparr>calls = 0, slept_ms = 0\<rparr> = (reply, st')"
    by (cases "generateAIResponse p (trim msg) (detectMood (trim msg))
          (detectMode (trim msg) (q_mode req)) history 2 \<lparr>calls = 0, slept_ms = 0\<rparr>")
  from a obtain status where
    "p (build_prompt (trim msg) (detectMood (trim msg)) (detectMode (trim msg) (q_mode req))
          history) (calls st' - 1) = Failure status"
    by blast
  with gen_trace[OF r] have "reply = apology status" by simp
  then have "reply \<in> {rate_limited_reply, confused_reply, trouble_reply}"
    by (simp add: apology_def)
  with r show "http_status (fst (post_chat p clock req db)) = 200"
    and "r_response (http_body (fst (post_chat p clock req db))) \<in>
        {rate_limited_reply, confused_reply, trouble_reply}"
    unfolding pc by simp_all
qed


theorem generation_failure_absorbed_witness:
  "http_status (fst (post_chat (always_fails None) same_second excited_request open_database))
     = 200 \<and>
   r_response (http_body
     (fst (post_chat (always_fails None) same_second excited_request open_database))) \<in>
     {rate_limited_reply, confused_reply, trouble_reply}"
proof -
  have "trim ''I'm so excited about this!'' \<noteq> []"
    by (simp add: trim_def is_whitespace_def)
  then have "\<exists>message. q_message excited_request = Some message \<and> trim message \<noteq> []"
    by (simp add: excited_request_def)
  then obtain message where
    m: "q_message excited_request = Some message \<and> trim message \<noteq> []" by blast
  have f: "\<forall>prompt k. \<exists>status. always_fails None prompt k = Failure status"
    by (simp add: always_fails_def)
  from generation_failure_absorbed[of "always_fails None" _ _ _ _ _ _ excited_request message same_second open_database]
    m f
  show ?thesis by blast
qed


section \<open>Prompt composer: the template lookup\<close>

lemma get_property_own:
  "map_of obj key = Some v \<Longrightarrow> get_property obj key = JSString v"
  by (simp add: get_property_def)







section \<open>Two requests traced\<close>

lemma excited_trim: "trim ''I'm so excited about this!'' = ''I'm so excited about this!''"
  by (simp add: trim_def is_whitespace_def)

lemma excited_chat:
  "\<exists>u a db'.
     post_chat (always_answers ''hello'') same_second excited_request open_database =
       (\<lparr>http_status = 200,
         http_body = \<lparr>r_response = ''hello'',
           r_mood = detectMood ''I'm so excited about this!'',
           r_mode = detectMode ''I'm so excited about this!'' None\<rparr>\<rparr>, db') \<and>
     conversations db' = [u, a] \<and> foreign_keys db' = False \<and> session_exists ''s1'' db' \<and>
     m_id u = 1 \<and> m_id a = 2 \<and> m_timestamp u = 1000 \<and> m_timestamp a = 1000 \<and>
     m_session_id u = ''s1'' \<and> m_session_id a = ''s1'' \<and>
     m_role u = User \<and> m_role a = Assistant"
proof -
  have q: "q_message excited_request = Some ''I'm so excited about this!''"
    by (simp add: excited_request_def)
  have t: "trim ''I'm so excited about this!'' \<noteq> []"
    by (simp only: excited_trim) simp
  have g: "fst (generateAIResponse (always_answers ''hello'') m mo md h 2
                  \<lparr>calls = 0, slept_ms = 0\<rparr>) = ''hello''" for m mo md h
    by (simp add: generateAIResponse.simps always_answers_def)
  from post_chat_valid[OF q t, of "always_answers ''hello''" same_second open_database]
  show ?thesis
    unfolding excited_trim g
    by (auto simp: open_database_def same_second_def request_session_def excited_request_def)
qed

text \<open>
  \<^bold>\<open>C1.\<close> \<open>POST /api/chat\<close> with the message \<open>I'm so excited about this!\<close> and the
  session \<open>s1\<close>, on a new store: the mood of the response is \<open>happy\<close>, because the first
  pattern tested lists \<open>excited\<close> too; a user turn and an assistant turn are stored under
  \<open>s1\<close>.
\<close>

theorem excited_message_classified_happy:
  "detectMood ''I'm so excited about this!'' = Happy \<and>
   r_mood (http_body
     (fst (post_chat (always_answers ''hello'') same_second excited_request open_database)))
     = Happy \<and>
   map m_role (session_rows ''s1''
     (snd (post_chat (always_answers ''hello'') same_second excited_request open_database)))
     = [User, Assistant]"
proof -
  have d: "detectMood ''I'm so excited about this!'' = Happy" by code_simp
  from excited_chat d show ?thesis by (auto simp: session_rows_def)
qed

text \<open>
  \<^bold>\<open>C2.\<close> After that request, \<open>DELETE /api/sessions/s1\<close> removes the session, and
  \<open>GET /api/history/s1\<close> still returns its two turns: the connection does not enforce
  foreign keys, so the delete does not cascade.
\<close>

theorem deleted_session_keeps_turns:
  "\<not> session_exists ''s1''
      (snd (delete_session ''s1''
        (snd (post_chat (always_answers ''hello'') same_second excited_request open_database)))) \<and>
   map m_role (snd (get_history ''s1''
      (snd (delete_session ''s1''
        (snd (post_chat (always_answers ''hello'') same_second excited_request open_database))))))
     = [User, Assistant]"
proof -
  from excited_chat obtain u a db' where
    pc: "snd (post_chat (always_answers ''hello'') same_second excited_request open_database) = db'"
    and c: "conversations db' = [u, a]" and fk: "\<not> foreign_keys db'"
    and ua: "m_id u = 1" "m_id a = 2" "m_timestamp u = 1000" "m_timestamp a = 1000"
      "m_session_id u = ''s1''" "m_session_id a = ''s1''" "m_role u = User" "m_role a = Assistant"
    by force
  have gone: "\<not> session_exists ''s1'' (deleteSession ''s1'' db')"
    by (auto simp: deleteSession_def session_exists_def)
  have kept: "conversations (deleteSession ''s1'' db') = [u, a]"
    using deleteSession_unenforced[OF fk] c by simp
  have "getConversationHistory ''s1'' 50 (deleteSession ''s1'' db') = [u, a]"
    using ua by (simp add: getConversationHistory_def kept order_by_timestamp_desc_def
          sql_limit_def scan_key_def)
  with gone show ?thesis unfolding pc by (simp add: get_history_def delete_session_def ua)
qed


end
